theory Spec2Isabelle
  imports Main "HOL-Library.AList"
begin

section \<open>The host environment of the service worker\<close>

text \<open>
  The repository holds two service workers: \<^verbatim>\<open>sw.js\<close>, and the worker whose text
  follows the testing guide in \<^verbatim>\<open>docs/PWA-TESTING.md\<close> (cache versioning, a
  stale-while-revalidate route). Both are embedded here, the second with the suffix
  \<open>_pwa\<close> where a name would clash. What the browser supplies (requests and responses,
  the \<^verbatim>\<open>caches\<close> storage, \<^verbatim>\<open>fetch\<close>, the worker life cycle) is modelled
  in this section; the listeners of the two files follow in the next ones.

  Strings are lists of 8-bit characters. A request is identified by its URL, the key
  under which the Cache API stores its response; requests are GET requests, the only
  ones the Cache API stores.
\<close>

record URL =
  origin :: string
  pathname :: string
  search :: string

definition href :: "URL \<Rightarrow> string" where
  "href u = origin u @ pathname u @ search u"

record request =
  url :: URL
  destination :: string

text \<open>
  \<^verbatim>\<open>response.type\<close>: \<open>Basic\<close> is a same-origin response, \<open>Cors\<close> and \<open>Opaque\<close> are
  the two kinds of cross-origin response.
\<close>

datatype response_type = Basic | Cors | Opaque | Opaqueredirect

record response =
  status :: nat
  rtype :: response_type
  body :: string

text \<open>
  The network answers a URL with a response, or fails (\<open>None\<close>: the promise of
  \<^verbatim>\<open>fetch\<close> rejects).
\<close>

type_synonym network = "string \<Rightarrow> response option"

definition startsWith :: "string \<Rightarrow> string \<Rightarrow> bool" where
  "startsWith s p = (take (length p) s = p)"

fun includes_str :: "string \<Rightarrow> string \<Rightarrow> bool" where
  "includes_str [] p = (p = [])"
| "includes_str (c # s) p = (startsWith (c # s) p \<or> includes_str s p)"

text \<open>
  A URL string of the worker's code, resolved against the worker's own location
  \<open>loc\<close> (\<^verbatim>\<open>self.location.origin\<close>): a path is prefixed with the origin, and an
  absolute URL with no path gets the path \<^verbatim>\<open>/\<close>.
\<close>

fun after_scheme :: "string \<Rightarrow> string" where
  "after_scheme (a # b # c # s) =
     (if [a, b, c] = ''://'' then s else after_scheme (b # c # s))"
| "after_scheme s = []"

definition resolve_url :: "string \<Rightarrow> string \<Rightarrow> string" where
  "resolve_url loc s =
     (if startsWith s ''/'' then loc @ s
      else if CHR ''/'' \<in> set (after_scheme s) then s
      else s @ ''/'')"

subsection \<open>Cache storage\<close>

text \<open>
  A cache maps request URLs to responses; the storage is the list of named caches in
  the order of their creation, the order in which \<^verbatim>\<open>caches.keys()\<close> lists them and
  \<^verbatim>\<open>caches.match\<close> searches them.
\<close>

type_synonym cache = "(string \<times> response) list"

type_synonym cache_storage = "(string \<times> cache) list"

definition caches_keys :: "cache_storage \<Rightarrow> string list" where
  "caches_keys cs = map fst cs"

definition caches_open :: "string \<Rightarrow> cache_storage \<Rightarrow> cache_storage" where
  "caches_open name cs = (if name \<in> set (caches_keys cs) then cs else cs @ [(name, [])])"

definition caches_delete :: "string \<Rightarrow> cache_storage \<Rightarrow> cache_storage" where
  "caches_delete name cs = filter (\<lambda>(n, c). n \<noteq> name) cs"

fun caches_match :: "string \<Rightarrow> cache_storage \<Rightarrow> response option" where
  "caches_match k [] = None"
| "caches_match k ((n, c) # cs) =
     (case map_of c k of Some r \<Rightarrow> Some r | None \<Rightarrow> caches_match k cs)"

definition cache_match :: "string \<Rightarrow> string \<Rightarrow> cache_storage \<Rightarrow> response option" where
  "cache_match name k cs = (case map_of cs name of None \<Rightarrow> None | Some c \<Rightarrow> map_of c k)"

definition cache_put :: "string \<Rightarrow> string \<Rightarrow> response \<Rightarrow> cache_storage \<Rightarrow> cache_storage" where
  "cache_put name k r cs =
     map (\<lambda>(n, c). if n = name then (n, AList.update k r c) else (n, c)) cs"

text \<open>
  \<^verbatim>\<open>cache.addAll(urls)\<close> fetches every URL and stores the responses only when
  every fetch succeeded with an ok status (200 to 299) other than 206; otherwise its
  promise rejects and nothing is stored.
\<close>

definition ok_response :: "response \<Rightarrow> bool" where
  "ok_response r = (200 \<le> status r \<and> status r \<le> 299 \<and> status r \<noteq> 206)"

fun fetch_all :: "network \<Rightarrow> string list \<Rightarrow> (string \<times> response) list option" where
  "fetch_all net [] = Some []"
| "fetch_all net (u # us) =
     (case net u of
        None \<Rightarrow> None
      | Some r \<Rightarrow>
          if ok_response r
          then (case fetch_all net us of None \<Rightarrow> None | Some rs \<Rightarrow> Some ((u, r) # rs))
          else None)"

definition cache_addAll ::
  "network \<Rightarrow> string list \<Rightarrow> string \<Rightarrow> cache_storage \<Rightarrow> cache_storage option" where
  "cache_addAll net urls name cs =
     (case fetch_all net urls of
        None \<Rightarrow> None
      | Some rs \<Rightarrow> Some (fold (\<lambda>(u, r). cache_put name u r) rs cs))"

subsection \<open>What a listener does\<close>

text \<open>
  A listener is a function of the network and the storage at the time of the event.
  Its outcome records the state in which the promise given to
  \<^verbatim>\<open>event.waitUntil\<close> settles, whether \<^verbatim>\<open>self.skipWaiting()\<close> or
  \<^verbatim>\<open>self.clients.claim()\<close> was called, the URLs fetched from the network, the
  value given to \<^verbatim>\<open>event.respondWith\<close> (\<open>None\<close> is \<^verbatim>\<open>undefined\<close> or
  \<^verbatim>\<open>null\<close>, which the page receives as a network error), and the storage once every
  write the listener started has finished.
\<close>

datatype promise = Fulfilled | Rejected

record install_outcome =
  waitUntil :: promise
  skipWaiting_called :: bool
  installed_caches :: cache_storage

record activate_outcome =
  claim_called :: bool
  activated_caches :: cache_storage

record fetch_outcome =
  responded :: "response option"
  fetched :: "string list"
  caches_after :: cache_storage

text \<open>
  The life cycle of a worker, as the browser runs it: an install whose promise rejects
  discards the worker; otherwise the worker waits while another worker controls open
  pages, unless \<^verbatim>\<open>skipWaiting\<close> was called. A waiting worker on which
  \<^verbatim>\<open>skipWaiting\<close> is called starts to activate.
\<close>

datatype worker_state = Installing | Waiting | Activating | Activated | Redundant

definition after_install :: "bool \<Rightarrow> install_outcome \<Rightarrow> worker_state" where
  "after_install controlled out =
     (case waitUntil out of
        Rejected \<Rightarrow> Redundant
      | Fulfilled \<Rightarrow> if skipWaiting_called out then Activating
                     else if controlled then Waiting else Activating)"

definition after_message :: "worker_state \<Rightarrow> bool \<Rightarrow> worker_state" where
  "after_message st skip = (if st = Waiting \<and> skip then Activating else st)"

text \<open>
  \<^verbatim>\<open>event.data\<close> of a message: a falsy value, or a value whose \<^verbatim>\<open>type\<close> member
  is a string or is missing.
\<close>

datatype message_data = Falsy | Data "string option"

section \<open>The worker of sw.js\<close>

definition CACHE_NAME :: string where
  "CACHE_NAME = ''bible-study-v1''"

definition ASSETS_TO_CACHE :: "string list" where
  "ASSETS_TO_CACHE =
     [''/'', ''/index.html'', ''/manifest.webmanifest'', ''/assets/icon-192.svg'',
      ''/assets/icon-512.svg'', ''https://cdn.tailwindcss.com'']"

text \<open>
  The install listener: open the cache, add every asset, then call
  \<^verbatim>\<open>self.skipWaiting()\<close>. A rejection of \<^verbatim>\<open>addAll\<close> skips the last step and
  rejects the promise given to \<^verbatim>\<open>waitUntil\<close>.
\<close>

definition install_listener :: "string \<Rightarrow> network \<Rightarrow> cache_storage \<Rightarrow> install_outcome" where
  "install_listener loc net cs =
     (let opened = caches_open CACHE_NAME cs in
      case cache_addAll net (map (resolve_url loc) ASSETS_TO_CACHE) CACHE_NAME opened of
        None \<Rightarrow> \<lparr>waitUntil = Rejected, skipWaiting_called = False, installed_caches = opened\<rparr>
      | Some stored \<Rightarrow>
          \<lparr>waitUntil = Fulfilled, skipWaiting_called = True, installed_caches = stored\<rparr>)"

text \<open>The activate listener: delete every cache whose name is not \<open>CACHE_NAME\<close>, then claim.\<close>

definition activate_listener :: "cache_storage \<Rightarrow> activate_outcome" where
  "activate_listener cs =
     \<lparr>claim_called = True,
      activated_caches =
        fold caches_delete (filter (\<lambda>name. name \<noteq> CACHE_NAME) (caches_keys cs)) cs\<rparr>"

text \<open>
  The fetch listener: a cached response is returned as it is. On a miss the request is
  fetched; a response that is not a 200 of type basic is returned and not stored; any
  other one is returned, the cache is opened, and the response is put when the URL
  starts with the worker's origin or contains \<^verbatim>\<open>.json\<close>. When the fetch fails, a
  request for a document gets \<^verbatim>\<open>caches.match('/index.html')\<close> and any other
  request gets \<^verbatim>\<open>undefined\<close>.
\<close>

definition fetch_listener :: "string \<Rightarrow> network \<Rightarrow> cache_storage \<Rightarrow> request \<Rightarrow> fetch_outcome" where
  "fetch_listener loc net cs req =
     (let k = href (url req) in
      case caches_match k cs of
        Some response \<Rightarrow> \<lparr>responded = Some response, fetched = [], caches_after = cs\<rparr>
      | None \<Rightarrow>
          (case net k of
             Some response \<Rightarrow>
               if status response \<noteq> 200 \<or> rtype response \<noteq> Basic
               then \<lparr>responded = Some response, fetched = [k], caches_after = cs\<rparr>
               else
                 \<lparr>responded = Some response, fetched = [k],
                  caches_after =
                    (let opened = caches_open CACHE_NAME cs in
                     if startsWith k loc \<or> includes_str k ''.json''
                     then cache_put CACHE_NAME k response opened
                     else opened)\<rparr>
           | None \<Rightarrow>
               \<lparr>responded =
                  (if destination req = ''document''
                   then caches_match (resolve_url loc ''/index.html'') cs
                   else None),
                fetched = [k], caches_after = cs\<rparr>))"

text \<open>The message listener: whether \<^verbatim>\<open>self.skipWaiting()\<close> is called.\<close>

definition message_listener :: "message_data \<Rightarrow> bool" where
  "message_listener d = (case d of Falsy \<Rightarrow> False | Data t \<Rightarrow> t = Some ''SKIP_WAITING'')"

section \<open>The worker of docs/PWA-TESTING.md\<close>

definition CACHE_VERSION :: string where
  "CACHE_VERSION = ''v1''"

definition CACHE_NAME_pwa :: string where
  "CACHE_NAME_pwa = ''bible-study-'' @ CACHE_VERSION"

definition PRECACHE_ASSETS :: "string list" where
  "PRECACHE_ASSETS =
     [''/'', ''/index.html'', ''/manifest.webmanifest'', ''https://cdn.tailwindcss.com'',
      ''/theology/commentary.json'', ''/xrefs/John.json'', ''/xrefs/Psalms.json'',
      ''/xrefs/John-3-16.json'']"

text \<open>
  The install listener: open the cache and add every asset; a rejection is caught and
  logged, so the promise given to \<^verbatim>\<open>waitUntil\<close> is fulfilled either way.
  \<^verbatim>\<open>skipWaiting\<close> is not called.
\<close>

definition install_listener_pwa :: "string \<Rightarrow> network \<Rightarrow> cache_storage \<Rightarrow> install_outcome" where
  "install_listener_pwa loc net cs =
     (let opened = caches_open CACHE_NAME_pwa cs in
      case cache_addAll net (map (resolve_url loc) PRECACHE_ASSETS) CACHE_NAME_pwa opened of
        None \<Rightarrow> \<lparr>waitUntil = Fulfilled, skipWaiting_called = False, installed_caches = opened\<rparr>
      | Some stored \<Rightarrow>
          \<lparr>waitUntil = Fulfilled, skipWaiting_called = False, installed_caches = stored\<rparr>)"

text \<open>
  The activate listener: delete every cache whose name starts with
  \<^verbatim>\<open>bible-study-\<close> and is not \<open>CACHE_NAME_pwa\<close>, then claim.
\<close>

definition activate_listener_pwa :: "cache_storage \<Rightarrow> activate_outcome" where
  "activate_listener_pwa cs =
     \<lparr>claim_called = True,
      activated_caches =
        fold caches_delete
          (filter (\<lambda>name. startsWith name ''bible-study-'' \<and> name \<noteq> CACHE_NAME_pwa)
             (caches_keys cs))
          cs\<rparr>"

text \<open>
  \<^verbatim>\<open>staleWhileRevalidate(request)\<close>: open the cache and look the request up in it;
  fetch the request, put a response of status 200, and turn a failed fetch into
  \<^verbatim>\<open>null\<close>; return the cached response when there is one, the outcome of the fetch
  otherwise.
\<close>

definition staleWhileRevalidate :: "network \<Rightarrow> cache_storage \<Rightarrow> request \<Rightarrow> fetch_outcome" where
  "staleWhileRevalidate net cs req =
     (let k = href (url req);
          opened = caches_open CACHE_NAME_pwa cs;
          cachedResponse = cache_match CACHE_NAME_pwa k opened;
          fetchPromise = net k
      in \<lparr>responded = (case cachedResponse of Some c \<Rightarrow> Some c | None \<Rightarrow> fetchPromise),
          fetched = [k],
          caches_after =
            (case fetchPromise of
               Some networkResponse \<Rightarrow>
                 if status networkResponse = 200
                 then cache_put CACHE_NAME_pwa k networkResponse opened
                 else opened
             | None \<Rightarrow> opened)\<rparr>)"

text \<open>
  The fetch listener: paths under \<^verbatim>\<open>/bibles/\<close> and \<^verbatim>\<open>/xrefs/\<close> go to
  \<^verbatim>\<open>staleWhileRevalidate\<close>. Every other request is served from the caches; on a
  miss it is fetched, and a response of status 200 is put into the cache when the
  request's origin is the worker's. A failed fetch is handled as in \<^verbatim>\<open>sw.js\<close>.
  \<open>swr_route\<close> names the test of the first branch.
\<close>

definition fetch_listener_pwa :: "string \<Rightarrow> network \<Rightarrow> cache_storage \<Rightarrow> request \<Rightarrow> fetch_outcome" where
  "fetch_listener_pwa loc net cs req =
     (if startsWith (pathname (url req)) ''/bibles/'' \<or> startsWith (pathname (url req)) ''/xrefs/''
      then staleWhileRevalidate net cs req
      else
        (let k = href (url req) in
         case caches_match k cs of
           Some cachedResponse \<Rightarrow>
             \<lparr>responded = Some cachedResponse, fetched = [], caches_after = cs\<rparr>
         | None \<Rightarrow>
             (case net k of
                Some response \<Rightarrow>
                  if status response \<noteq> 200
                  then \<lparr>responded = Some response, fetched = [k], caches_after = cs\<rparr>
                  else
                    \<lparr>responded = Some response, fetched = [k],
                     caches_after =
                       (if origin (url req) = loc
                        then cache_put CACHE_NAME_pwa k response (caches_open CACHE_NAME_pwa cs)
                        else cs)\<rparr>
              | None \<Rightarrow>
                  \<lparr>responded =
                     (if destination req = ''document''
                      then caches_match (resolve_url loc ''/index.html'') cs
                      else None),
                   fetched = [k], caches_after = cs\<rparr>)))"

definition swr_route :: "request \<Rightarrow> bool" where
  "swr_route req =
     (startsWith (pathname (url req)) ''/bibles/'' \<or> startsWith (pathname (url req)) ''/xrefs/'')"

definition message_listener_pwa :: "message_data \<Rightarrow> bool" where
  "message_listener_pwa d = (case d of Falsy \<Rightarrow> False | Data t \<Rightarrow> t = Some ''SKIP_WAITING'')"

section \<open>The content validator\<close>

text \<open>
  The validator reads JSON files below the working directory, collects errors and
  warnings, prints a summary and sets the exit code. A file is modelled by the value
  \<^verbatim>\<open>JSON.parse\<close> gives for its content (\<open>None\<close> when reading or parsing
  throws); an object is the list of its members in the order of
  \<^verbatim>\<open>Object.entries\<close>, with distinct keys. Numbers are integers. The working
  directory is a tree of named files and directories, listed in the order of
  \<^verbatim>\<open>readdir\<close>.
\<close>

datatype json =
    JNull
  | JBool bool
  | JNum int
  | JStr string
  | JArr "json list"
  | JObj "(string \<times> json) list"





















subsection \<open>JavaScript values read from JSON\<close>









subsection \<open>Messages and the validator's state\<close>

text \<open>
  A message is the text pushed to \<^verbatim>\<open>errors\<close> or \<^verbatim>\<open>warnings\<close>, kept as the
  kind of the message and the values the template string interpolates.
  \<open>Thrown\<close> is the message of a caught exception. \<^verbatim>\<open>bookStats\<close> maps a book
  name to its translations and its number of issues; \<open>Inherited\<close> is a member of
  \<^verbatim>\<open>Object.prototype\<close> that the validator stored under the book's name.
\<close>

datatype message =
    Thrown string
  | Bible_not_object string
  | Invalid_chapter_key string string
  | Chapter_not_array string string
  | Empty_chapter string string
  | Verse_not_string string string nat
  | Xref_not_object string
  | Invalid_xref_key string string
  | Xref_value_not_array string string
  | Reference_not_string string string
  | Could_not_parse string string
  | Chapter_missing string string
  | Verse_missing string string int
  | Directory_not_found string
  | Commentary_not_array string
  | Missing_field string nat string
  | Invalid_mode string nat json
  | Excerpt_too_long string nat nat
  | Takeaways_not_array string nat

datatype stat = Stat "string list" nat | Inherited

record validation =
  errors :: "message list"
  warnings :: "message list"
  bookStats :: "(string \<times> stat) list"

definition push_errors :: "message list \<Rightarrow> validation \<Rightarrow> validation" where
  "push_errors ms v = v\<lparr>errors := errors v @ ms\<rparr>"

definition push_warnings :: "message list \<Rightarrow> validation \<Rightarrow> validation" where
  "push_warnings ms v = v\<lparr>warnings := warnings v @ ms\<rparr>"

subsection \<open>validateBibleFiles\<close>









subsection \<open>loadAllBibleData\<close>







subsection \<open>validateXrefs\<close>









subsection \<open>validateCommentary\<close>










subsection \<open>printSummary and main\<close>





subsection \<open>Removing the reference strings that do not parse\<close>







section \<open>Example inputs\<close>

text \<open>Concrete requests, networks and directory trees, used to evaluate the definitions.\<close>

definition site :: string where
  "site = ''https://bible.example''"

definition page :: "string \<Rightarrow> string \<Rightarrow> request" where
  "page p d = \<lparr>url = \<lparr>origin = site, pathname = p, search = []\<rparr>, destination = d\<rparr>"

definition answer :: "nat \<Rightarrow> string \<Rightarrow> response" where
  "answer n b = \<lparr>status = n, rtype = Basic, body = b\<rparr>"

definition online :: network where
  "online u = Some (answer 200 u)"

definition offline :: network where
  "offline u = None"

definition missing_xref :: network where
  "missing_xref u =
     (if u = site @ ''/xrefs/John.json'' then Some (answer 404 []) else Some (answer 200 u))"






section \<open>Facts about the cache storage\<close>

lemma cache_match_caches_open:
  "cache_match name k (caches_open name' cs) = cache_match name k cs"
proof (cases "name' \<in> set (caches_keys cs)")
  case True
  then show ?thesis by (simp add: caches_open_def)
next
  case False
  then have "map_of cs name' = None"
    by (simp add: caches_keys_def map_of_eq_None_iff)
  then show ?thesis
    using False by (simp add: cache_match_def caches_open_def map_add_def split: option.splits)
qed

lemma map_of_cache_put:
  "map_of (cache_put name k r cs) n =
     (if n = name then map_option (AList.update k r) (map_of cs n) else map_of cs n)"
  by (induction cs) (auto simp: cache_put_def)

lemma cache_match_cache_put:
  "cache_match n k' (cache_put name k r cs) =
     (if n = name \<and> k' = k \<and> name \<in> set (caches_keys cs) then Some r
      else cache_match n k' cs)"
proof (cases "map_of cs name")
  case None
  then have "name \<notin> set (caches_keys cs)"
    by (simp add: caches_keys_def map_of_eq_None_iff)
  with None show ?thesis
    by (simp add: cache_match_def map_of_cache_put)
next
  case (Some c)
  then have "name \<in> set (caches_keys cs)"
    by (metis caches_keys_def map_of_eq_None_iff option.distinct(1) set_map)
  with Some show ?thesis
    by (simp add: cache_match_def map_of_cache_put AList.update_conv')
qed

lemma caches_keys_caches_open:
  "set (caches_keys (caches_open name cs)) = insert name (set (caches_keys cs))"
  by (auto simp: caches_open_def caches_keys_def)

lemma fold_caches_delete:
  "fold caches_delete names cs = filter (\<lambda>(n, c). n \<notin> set names) cs"
  by (induction names arbitrary: cs) (auto simp: caches_delete_def intro!: filter_cong)




lemma fetch_all_fails:
  "u \<in> set urls \<Longrightarrow> net u = None \<or> (\<exists>r. net u = Some r \<and> \<not> ok_response r)
   \<Longrightarrow> fetch_all net urls = None"
  by (induction urls) (auto split: option.splits)

section \<open>The two workers, side by side\<close>

text \<open>
  Where the two files differ: \<^verbatim>\<open>sw.js\<close> rejects an install whose precache
  failed, and the worker of \<^verbatim>\<open>docs/PWA-TESTING.md\<close> waits after install until the
  \<^verbatim>\<open>SKIP_WAITING\<close> message, keeps the caches of other prefixes on activation, and
  revalidates what it serves from the cache under \<^verbatim>\<open>/bibles/\<close> and
  \<^verbatim>\<open>/xrefs/\<close>. Then what each fetch listener can write.
\<close>

lemma install_listener_rejects:
  assumes "u \<in> set ASSETS_TO_CACHE"
    and "net (resolve_url loc u) = None \<or> (\<exists>r. net (resolve_url loc u) = Some r \<and> \<not> ok_response r)"
  shows "waitUntil (install_listener loc net cs) = Rejected"
    and "after_install controlled (install_listener loc net cs) = Redundant"
    and "cache_match name k (installed_caches (install_listener loc net cs)) = cache_match name k cs"
proof -
  have "fetch_all net (map (resolve_url loc) ASSETS_TO_CACHE) = None"
    using assms by (intro fetch_all_fails [of "resolve_url loc u"]) auto
  then have out: "install_listener loc net cs =
      \<lparr>waitUntil = Rejected, skipWaiting_called = False,
       installed_caches = caches_open CACHE_NAME cs\<rparr>"
    by (simp add: install_listener_def cache_addAll_def)
  show "waitUntil (install_listener loc net cs) = Rejected"
    by (simp add: out)
  show "after_install controlled (install_listener loc net cs) = Redundant"
    by (simp add: out after_install_def)
  show "cache_match name k (installed_caches (install_listener loc net cs)) = cache_match name k cs"
    by (simp add: out cache_match_caches_open)
qed

lemma install_listener_pwa_waits:
  "skipWaiting_called (install_listener_pwa loc net cs) = False"
  "after_install True (install_listener_pwa loc net cs) = Waiting"
  by (simp_all add: install_listener_pwa_def after_install_def Let_def split: option.splits)

lemma message_listener_skips:
  "message_listener d = (d = Data (Some ''SKIP_WAITING''))"
  "message_listener_pwa d = (d = Data (Some ''SKIP_WAITING''))"
  by (cases d; simp add: message_listener_def message_listener_pwa_def)+

lemma waiting_until_skip_message:
  "after_message Waiting (message_listener_pwa d) =
     (if d = Data (Some ''SKIP_WAITING'') then Activating else Waiting)"
  by (simp add: after_message_def message_listener_skips)

lemma activate_listener_pwa_keeps:
  "activated_caches (activate_listener_pwa cs) =
     filter (\<lambda>(name, c). \<not> (startsWith name ''bible-study-'' \<and> name \<noteq> CACHE_NAME_pwa)) cs"
  by (force simp: activate_listener_pwa_def fold_caches_delete caches_keys_def intro!: filter_cong)

lemma fetch_listener_pwa_route:
  "swr_route req \<Longrightarrow> fetch_listener_pwa loc net cs req = staleWhileRevalidate net cs req"
  by (simp add: fetch_listener_pwa_def swr_route_def)

lemma CACHE_NAME_pwa_opened:
  "CACHE_NAME_pwa \<in> set (caches_keys (caches_open CACHE_NAME_pwa cs))"
  by (simp add: caches_keys_caches_open)

lemma staleWhileRevalidate_hit:
  assumes "swr_route req"
    and "cache_match CACHE_NAME_pwa (href (url req)) cs = Some c"
  shows "responded (fetch_listener_pwa loc net cs req) = Some c"
    and "fetched (fetch_listener_pwa loc net cs req) = [href (url req)]"
    and "cache_match CACHE_NAME_pwa (href (url req)) (caches_after (fetch_listener_pwa loc net cs req)) =
           (case net (href (url req)) of
              Some r \<Rightarrow> if status r = 200 then Some r else Some c
            | None \<Rightarrow> Some c)"
proof -
  have hit: "cache_match CACHE_NAME_pwa (href (url req)) (caches_open CACHE_NAME_pwa cs) = Some c"
    using assms(2) by (simp add: cache_match_caches_open)
  show "responded (fetch_listener_pwa loc net cs req) = Some c"
    using assms(1) hit by (simp add: fetch_listener_pwa_route staleWhileRevalidate_def Let_def)
  show "fetched (fetch_listener_pwa loc net cs req) = [href (url req)]"
    using assms(1) by (simp add: fetch_listener_pwa_route staleWhileRevalidate_def Let_def)
  show "cache_match CACHE_NAME_pwa (href (url req)) (caches_after (fetch_listener_pwa loc net cs req)) =
           (case net (href (url req)) of
              Some r \<Rightarrow> if status r = 200 then Some r else Some c
            | None \<Rightarrow> Some c)"
    using assms(1) hit
    by (simp add: fetch_listener_pwa_route staleWhileRevalidate_def Let_def cache_match_cache_put
        CACHE_NAME_pwa_opened split: option.splits)
qed

lemma fetch_listener_writes:
  "cache_match name k (caches_after (fetch_listener loc net cs req)) = cache_match name k cs \<or>
   (\<exists>r. net k = Some r \<and> status r = 200 \<and>
        cache_match name k (caches_after (fetch_listener loc net cs req)) = Some r)"
  by (auto simp: fetch_listener_def Let_def cache_match_cache_put cache_match_caches_open
      split: option.splits)

lemma staleWhileRevalidate_writes:
  "cache_match name k (caches_after (staleWhileRevalidate net cs req)) = cache_match name k cs \<or>
   (\<exists>r. net k = Some r \<and> status r = 200 \<and>
        cache_match name k (caches_after (staleWhileRevalidate net cs req)) = Some r)"
  by (auto simp: staleWhileRevalidate_def Let_def cache_match_cache_put cache_match_caches_open
      split: option.splits)

lemma fetch_listener_pwa_writes:
  "cache_match name k (caches_after (fetch_listener_pwa loc net cs req)) = cache_match name k cs \<or>
   (\<exists>r. net k = Some r \<and> status r = 200 \<and>
        cache_match name k (caches_after (fetch_listener_pwa loc net cs req)) = Some r)"
proof (cases "swr_route req")
  case True
  then show ?thesis
    using staleWhileRevalidate_writes [of name k net cs req]
    by (simp add: fetch_listener_pwa_route)
next
  case False
  then show ?thesis
    by (auto simp: fetch_listener_pwa_def swr_route_def Let_def cache_match_cache_put
        cache_match_caches_open split: option.splits)
qed



section \<open>Facts about the validator\<close>






















section \<open>The life cycle: install and activate\<close>

text \<open>
  Claim C1: an instance that finishes installing while another instance controls the
  pages waits instead of activating, the \<^verbatim>\<open>SKIP_WAITING\<close> message is the only way
  to leave the waiting state early, and install never calls skip-waiting itself.
  The install listener of \<^verbatim>\<open>sw.js\<close> does call \<^verbatim>\<open>self.skipWaiting()\<close>,
  exactly when the precache has succeeded; so its worker never waits, whether or not
  another worker controls the pages.
\<close>

theorem install_listener_skips_waiting:
  "skipWaiting_called (install_listener loc net cs) =
     (waitUntil (install_listener loc net cs) = Fulfilled) \<and>
   after_install controlled (install_listener loc net cs) \<noteq> Waiting"
  by (simp add: install_listener_def after_install_def Let_def split: option.splits)

theorem install_listener_skips_waiting_witness:
  "waitUntil (install_listener site online []) = Fulfilled \<and>
   skipWaiting_called (install_listener site online []) \<and>
   after_install True (install_listener site online []) = Activating"
proof -
  have "fetch_all online (map (resolve_url site) ASSETS_TO_CACHE) \<noteq> None"
    by (simp add: ASSETS_TO_CACHE_def online_def answer_def ok_response_def)
  then have "waitUntil (install_listener site online []) = Fulfilled"
    by (auto simp: install_listener_def cache_addAll_def Let_def)
  with install_listener_skips_waiting [of site online "[]" True] show ?thesis
    by (simp add: after_install_def)
qed

text \<open>
  Claim C2: when one precache fetch fails or returns a status other than 200, install
  fails as a whole, and the instance reaches neither the waiting nor the activated state.
  The install listener of \<^verbatim>\<open>docs/PWA-TESTING.md\<close> catches the rejection of
  \<^verbatim>\<open>addAll\<close> and logs it, so the promise it gives to \<^verbatim>\<open>waitUntil\<close> is
  fulfilled on every network: its worker goes on to wait, or to activate, also when
  nothing was stored. (The listener of \<^verbatim>\<open>sw.js\<close> rejects: \<open>install_listener_rejects\<close>.)
\<close>

theorem install_listener_pwa_never_fails:
  "waitUntil (install_listener_pwa loc net cs) = Fulfilled \<and>
   after_install True (install_listener_pwa loc net cs) = Waiting \<and>
   after_install False (install_listener_pwa loc net cs) = Activating"
  by (simp add: install_listener_pwa_def after_install_def Let_def split: option.splits)

theorem install_listener_pwa_never_fails_witness:
  "missing_xref (resolve_url site ''/xrefs/John.json'') = Some (answer 404 []) \<and>
   after_install True (install_listener_pwa site missing_xref []) = Waiting \<and>
   installed_caches (install_listener_pwa site missing_xref []) = [(CACHE_NAME_pwa, [])]"
proof -
  have "''/xrefs/John.json'' \<in> set PRECACHE_ASSETS"
    by (simp add: PRECACHE_ASSETS_def)
  moreover have u: "missing_xref (resolve_url site ''/xrefs/John.json'') = Some (answer 404 [])"
    by (simp add: missing_xref_def resolve_url_def startsWith_def)
  moreover have "\<not> ok_response (answer 404 [])"
    by (simp add: ok_response_def answer_def)
  ultimately have "fetch_all missing_xref (map (resolve_url site) PRECACHE_ASSETS) = None"
    by (intro fetch_all_fails [of "resolve_url site ''/xrefs/John.json''"]) auto
  then have "installed_caches (install_listener_pwa site missing_xref []) = [(CACHE_NAME_pwa, [])]"
    by (simp add: install_listener_pwa_def cache_addAll_def caches_open_def caches_keys_def)
  with u install_listener_pwa_never_fails [of site missing_xref "[]"] show ?thesis
    by simp
qed

text \<open>
  Claim C3: after activation every earlier cache whose name starts with
  \<^verbatim>\<open>bible-study-\<close> and differs from the current name is deleted, and the current
  cache and every cache without that prefix are untouched.
  The activate listener of \<^verbatim>\<open>sw.js\<close> has no test of the prefix: it keeps the cache
  named \<open>CACHE_NAME\<close> and deletes every other one, with or without the prefix.
  (The listener of \<^verbatim>\<open>docs/PWA-TESTING.md\<close> has the test: \<open>activate_listener_pwa_keeps\<close>.)
\<close>

theorem activate_listener_keeps_only_current:
  "activated_caches (activate_listener cs) = filter (\<lambda>(name, c). name = CACHE_NAME) cs"
  by (force simp: activate_listener_def fold_caches_delete caches_keys_def intro!: filter_cong)

theorem activate_listener_keeps_only_current_witness:
  "activated_caches (activate_listener
      [(''bible-study-v1'', []), (''bible-study-v0'', []), (''fonts'', [(''https://fonts.example/a'', answer 200 [])])])
   = [(''bible-study-v1'', [])]"
  using activate_listener_keeps_only_current
    [of "[(''bible-study-v1'', []), (''bible-study-v0'', []), (''fonts'', [(''https://fonts.example/a'', answer 200 [])])]"]
  by (simp add: CACHE_NAME_def)

section \<open>Serving requests\<close>

text \<open>
  Claim C4: a request under \<^verbatim>\<open>/bibles/\<close> or \<^verbatim>\<open>/xrefs/\<close> that has a cached
  entry is answered with that entry, and a fetch of the same request is started whose
  response of status 200 replaces the entry.
  The fetch listener of \<^verbatim>\<open>sw.js\<close> answers every request that has a cached entry
  with the entry and does nothing else: it fetches nothing and leaves the storage as
  it was, for these paths as for any other. (The listener of
  \<^verbatim>\<open>docs/PWA-TESTING.md\<close> revalidates: \<open>staleWhileRevalidate_hit\<close>.)
\<close>

theorem fetch_listener_hit_without_revalidation:
  "caches_match (href (url req)) cs = Some c \<Longrightarrow>
   fetch_listener loc net cs req = \<lparr>responded = Some c, fetched = [], caches_after = cs\<rparr>"
  by (simp add: fetch_listener_def Let_def)

theorem fetch_listener_hit_without_revalidation_witness:
  "swr_route (page ''/bibles/WEB/John.json'' []) \<and>
   online (site @ ''/bibles/WEB/John.json'') = Some (answer 200 (site @ ''/bibles/WEB/John.json'')) \<and>
   fetch_listener site online
     [(CACHE_NAME, [(site @ ''/bibles/WEB/John.json'', answer 200 ''stale'')])]
     (page ''/bibles/WEB/John.json'' []) =
   \<lparr>responded = Some (answer 200 ''stale''), fetched = [],
    caches_after = [(CACHE_NAME, [(site @ ''/bibles/WEB/John.json'', answer 200 ''stale'')])]\<rparr>"
proof -
  have "caches_match (href (url (page ''/bibles/WEB/John.json'' [])))
      [(CACHE_NAME, [(site @ ''/bibles/WEB/John.json'', answer 200 ''stale'')])]
    = Some (answer 200 ''stale'')"
    by (simp add: href_def page_def)
  from fetch_listener_hit_without_revalidation [OF this] show ?thesis
    by (simp add: swr_route_def page_def startsWith_def online_def)
qed

text \<open>
  Claim C5: whatever the strategy, handling a fetch writes a response to the cache only
  if its status is 200; a response with another status or a failed fetch is never
  written, and no entry is removed because a fetch failed.
  For both fetch listeners, and every cache name and key: the entry after the event is
  the entry before it, or it is the response the network gave for that key, with
  status 200.
\<close>

theorem fetch_stores_only_status_200:
  "(cache_match name k (caches_after (fetch_listener loc net cs req)) = cache_match name k cs \<or>
    (\<exists>r. net k = Some r \<and> status r = 200 \<and>
         cache_match name k (caches_after (fetch_listener loc net cs req)) = Some r)) \<and>
   (cache_match name k (caches_after (fetch_listener_pwa loc net cs req)) = cache_match name k cs \<or>
    (\<exists>r. net k = Some r \<and> status r = 200 \<and>
         cache_match name k (caches_after (fetch_listener_pwa loc net cs req)) = Some r))"
  using fetch_listener_writes fetch_listener_pwa_writes by simp

theorem fetch_stores_only_status_200_witness:
  "cache_match CACHE_NAME_pwa (site @ ''/xrefs/John.json'')
     (caches_after (fetch_listener_pwa site missing_xref
        [(CACHE_NAME_pwa, [(site @ ''/xrefs/John.json'', answer 200 ''old'')])]
        (page ''/xrefs/John.json'' []))) = Some (answer 200 ''old'') \<and>
   cache_match CACHE_NAME_pwa (site @ ''/xrefs/John.json'')
     (caches_after (fetch_listener_pwa site offline
        [(CACHE_NAME_pwa, [(site @ ''/xrefs/John.json'', answer 200 ''old'')])]
        (page ''/xrefs/John.json'' []))) = Some (answer 200 ''old'')"
proof -
  have old: "cache_match CACHE_NAME_pwa (site @ ''/xrefs/John.json'')
      [(CACHE_NAME_pwa, [(site @ ''/xrefs/John.json'', answer 200 ''old'')])] = Some (answer 200 ''old'')"
    by (simp add: cache_match_def)
  have "status (answer 404 []) \<noteq> 200"
    by (simp add: answer_def)
  then show ?thesis
    using old
      fetch_stores_only_status_200 [of CACHE_NAME_pwa "site @ ''/xrefs/John.json''" site
        missing_xref "[(CACHE_NAME_pwa, [(site @ ''/xrefs/John.json'', answer 200 ''old'')])]"
        "page ''/xrefs/John.json'' []"]
      fetch_stores_only_status_200 [of CACHE_NAME_pwa "site @ ''/xrefs/John.json''" site
        offline "[(CACHE_NAME_pwa, [(site @ ''/xrefs/John.json'', answer 200 ''old'')])]"
        "page ''/xrefs/John.json'' []"]
    by (auto simp: missing_xref_def offline_def)
qed

text \<open>
  Claim C6: for a request on a stale-while-revalidate route that has no cached entry, a
  fetch that succeeds with status 200 gives the caller that response, and a later
  lookup of the same request finds an entry equal to it; a fetch that fails gives the
  caller a failure.
  For the listener of \<^verbatim>\<open>docs/PWA-TESTING.md\<close>: the response is the value given to
  \<^verbatim>\<open>respondWith\<close>, it is the entry of the current cache afterwards, and the same
  request is answered with it on any later network; after a failed fetch the value
  given to \<^verbatim>\<open>respondWith\<close> is \<^verbatim>\<open>null\<close>.
\<close>

theorem staleWhileRevalidate_cold_cache:
  assumes "swr_route req"
    and "cache_match CACHE_NAME_pwa (href (url req)) cs = None"
  shows "(\<forall>r. net (href (url req)) = Some r \<and> status r = 200 \<longrightarrow>
            responded (fetch_listener_pwa loc net cs req) = Some r \<and>
            cache_match CACHE_NAME_pwa (href (url req))
              (caches_after (fetch_listener_pwa loc net cs req)) = Some r \<and>
            responded (fetch_listener_pwa loc net' (caches_after (fetch_listener_pwa loc net cs req)) req)
              = Some r) \<and>
         (net (href (url req)) = None \<longrightarrow> responded (fetch_listener_pwa loc net cs req) = None)"
proof -
  have miss: "cache_match CACHE_NAME_pwa (href (url req)) (caches_open CACHE_NAME_pwa cs) = None"
    using assms(2) by (simp add: cache_match_caches_open)
  have none: "net (href (url req)) = None \<longrightarrow> responded (fetch_listener_pwa loc net cs req) = None"
    using assms(1) miss by (simp add: fetch_listener_pwa_route staleWhileRevalidate_def Let_def)
  have some: "responded (fetch_listener_pwa loc net cs req) = Some r \<and>
      cache_match CACHE_NAME_pwa (href (url req))
        (caches_after (fetch_listener_pwa loc net cs req)) = Some r \<and>
      responded (fetch_listener_pwa loc net' (caches_after (fetch_listener_pwa loc net cs req)) req)
        = Some r"
    if r: "net (href (url req)) = Some r" "status r = 200" for r
  proof -
    have after: "caches_after (fetch_listener_pwa loc net cs req) =
        cache_put CACHE_NAME_pwa (href (url req)) r (caches_open CACHE_NAME_pwa cs)"
      using assms(1) r by (simp add: fetch_listener_pwa_route staleWhileRevalidate_def Let_def)
    have stored: "cache_match CACHE_NAME_pwa (href (url req))
        (cache_put CACHE_NAME_pwa (href (url req)) r (caches_open CACHE_NAME_pwa cs)) = Some r"
      by (simp add: cache_match_cache_put CACHE_NAME_pwa_opened)
    have first: "responded (fetch_listener_pwa loc net cs req) = Some r"
      using assms(1) miss r by (simp add: fetch_listener_pwa_route staleWhileRevalidate_def Let_def)
    have again: "responded (fetch_listener_pwa loc net'
        (cache_put CACHE_NAME_pwa (href (url req)) r (caches_open CACHE_NAME_pwa cs)) req) = Some r"
      using assms(1) stored
      by (simp add: fetch_listener_pwa_route staleWhileRevalidate_def Let_def cache_match_caches_open)
    show ?thesis using after stored first again by simp
  qed
  show ?thesis using none some by blast
qed

theorem staleWhileRevalidate_cold_cache_witness:
  "responded (fetch_listener_pwa site online [] (page ''/bibles/WEB/John.json'' []))
     = Some (answer 200 (site @ ''/bibles/WEB/John.json'')) \<and>
   cache_match CACHE_NAME_pwa (site @ ''/bibles/WEB/John.json'')
     (caches_after (fetch_listener_pwa site online [] (page ''/bibles/WEB/John.json'' [])))
     = Some (answer 200 (site @ ''/bibles/WEB/John.json'')) \<and>
   responded (fetch_listener_pwa site offline [] (page ''/xrefs/John.json'' [])) = None"
proof -
  have r1: "swr_route (page ''/bibles/WEB/John.json'' [])"
    by (simp add: swr_route_def page_def startsWith_def)
  have r2: "swr_route (page ''/xrefs/John.json'' [])"
    by (simp add: swr_route_def page_def startsWith_def)
  have m: "cache_match CACHE_NAME_pwa k [] = None" for k
    by (simp add: cache_match_def)
  have h: "href (url (page ''/bibles/WEB/John.json'' [])) = site @ ''/bibles/WEB/John.json''"
    by (simp add: href_def page_def)
  show ?thesis
    using staleWhileRevalidate_cold_cache [OF r1 m, of online site offline]
      staleWhileRevalidate_cold_cache [OF r2 m, of offline site offline]
    by (simp add: h online_def offline_def answer_def)
qed

text \<open>
  Claim C7: for a cache-first request whose cache lookup misses and whose fetch fails, a
  request for a document is answered with the stored root document, and for any other
  request the failure is passed on: no usable response is returned.
  For both listeners (in \<^verbatim>\<open>docs/PWA-TESTING.md\<close>, for the requests outside the
  stale-while-revalidate routes): the value given to \<^verbatim>\<open>respondWith\<close> is the stored
  entry of \<^verbatim>\<open>/index.html\<close> when the destination is \<^verbatim>\<open>document\<close>, and
  \<^verbatim>\<open>undefined\<close> otherwise.
\<close>

theorem cache_first_offline_fallback:
  assumes "caches_match (href (url req)) cs = None"
    and "net (href (url req)) = None"
  shows "responded (fetch_listener loc net cs req) =
           (if destination req = ''document''
            then caches_match (resolve_url loc ''/index.html'') cs else None) \<and>
         (\<not> swr_route req \<longrightarrow>
          responded (fetch_listener_pwa loc net cs req) =
            (if destination req = ''document''
             then caches_match (resolve_url loc ''/index.html'') cs else None))"
  using assms by (simp add: fetch_listener_def fetch_listener_pwa_def swr_route_def Let_def)

theorem cache_first_offline_fallback_witness:
  "responded (fetch_listener site offline
      [(CACHE_NAME, [(site @ ''/index.html'', answer 200 ''shell'')])] (page ''/weekly'' ''document''))
     = Some (answer 200 ''shell'') \<and>
   responded (fetch_listener_pwa site offline
      [(CACHE_NAME, [(site @ ''/index.html'', answer 200 ''shell'')])] (page ''/weekly'' ''document''))
     = Some (answer 200 ''shell'') \<and>
   responded (fetch_listener site offline
      [(CACHE_NAME, [(site @ ''/index.html'', answer 200 ''shell'')])] (page ''/logo.svg'' ''image''))
     = None \<and>
   responded (fetch_listener_pwa site offline
      [(CACHE_NAME, [(site @ ''/index.html'', answer 200 ''shell'')])] (page ''/logo.svg'' ''image''))
     = None"
proof -
  let ?cs = "[(CACHE_NAME, [(site @ ''/index.html'', answer 200 ''shell'')])]"
  have miss: "caches_match (href (url (page ''/weekly'' ''document''))) ?cs = None"
    "caches_match (href (url (page ''/logo.svg'' ''image''))) ?cs = None"
    by (simp_all add: href_def page_def)
  have off: "offline u = None" for u
    by (simp add: offline_def)
  have index: "caches_match (resolve_url site ''/index.html'') ?cs = Some (answer 200 ''shell'')"
    by (simp add: resolve_url_def startsWith_def)
  have route: "\<not> swr_route (page ''/weekly'' ''document'')" "\<not> swr_route (page ''/logo.svg'' ''image'')"
    by (simp_all add: swr_route_def page_def startsWith_def)
  have dest: "destination (page ''/weekly'' ''document'') = ''document''"
    "destination (page ''/logo.svg'' ''image'') \<noteq> ''document''"
    by (simp_all add: page_def)
  show ?thesis
    using cache_first_offline_fallback [OF miss(1) off, where loc = site]
      cache_first_offline_fallback [OF miss(2) off, where loc = site]
      index route dest
    by simp
qed



section \<open>The validator's exit code\<close>






end
